theory Spec2Isabelle
  imports Main
begin

section \<open>Naive datetimes of the standard library\<close>

text \<open>
  Both scripts read the clock as a naive \<^verbatim>\<open>datetime\<close>, add \<^verbatim>\<open>timedelta\<close>s and print
  with \<^verbatim>\<open>strftime\<close>. A naive datetime is modelled by the number of microseconds since
  0001-01-01T00:00:00 (proleptic Gregorian calendar); the largest one,
  9999-12-31T23:59:59.999999, is \<open>datetime_max\<close>. A timedelta is a number of microseconds
  whose day count has magnitude at most 999999999. Constructing a timedelta or adding one
  to a datetime outside these ranges raises \<^verbatim>\<open>OverflowError\<close>.
\<close>

datatype overflow_error = Timedelta_out_of_range | Date_value_out_of_range

definition datetime_max :: int where
  "datetime_max = 315537897599999999"

definition timedelta_of_us :: "int \<Rightarrow> overflow_error + int" where
  "timedelta_of_us us =
     (if - 999999999 * 86400000000 \<le> us \<and> us < 1000000000 * 86400000000
      then Inr us else Inl Timedelta_out_of_range)"

definition timedelta_hours :: "int \<Rightarrow> overflow_error + int" where
  "timedelta_hours h = timedelta_of_us (h * 3600000000)"

definition timedelta_minutes :: "int \<Rightarrow> overflow_error + int" where
  "timedelta_minutes m = timedelta_of_us (m * 60000000)"

definition datetime_add :: "int \<Rightarrow> int \<Rightarrow> overflow_error + int" where
  "datetime_add t d =
     (if 0 \<le> t + d \<and> t + d \<le> datetime_max then Inr (t + d)
      else Inl Date_value_out_of_range)"

subsection \<open>Calendar fields and \<^verbatim>\<open>strftime('%Y-%m-%dT%H:%M:%S')\<close>\<close>

text \<open>
  The day number (1 is 0001-01-01) is split into year, month and day the way the
  library's \<^verbatim>\<open>_ord2ymd\<close> does it: 400-year, 100-year, 4-year and 1-year cycles, then
  an estimate of the month that is corrected when it is too large.
\<close>

definition DAYS_IN_MONTH :: "int list" where
  "DAYS_IN_MONTH = [-1, 31, 28, 31, 30, 31, 30, 31, 31, 30, 31, 30, 31]"

definition DAYS_BEFORE_MONTH :: "int list" where
  "DAYS_BEFORE_MONTH = [-1, 0, 31, 59, 90, 120, 151, 181, 212, 243, 273, 304, 334]"

definition bool_int :: "bool \<Rightarrow> int" where
  "bool_int b = (if b then 1 else 0)"

definition ord2ymd :: "int \<Rightarrow> int \<times> int \<times> int" where
  "ord2ymd ordinal =
     (let n = ordinal - 1;
          n400 = n div 146097; n = n mod 146097;
          n100 = n div 36524; n = n mod 36524;
          n4 = n div 1461; n = n mod 1461;
          n1 = n div 365; n = n mod 365;
          year = n400 * 400 + 1 + n100 * 100 + n4 * 4 + n1
      in if n1 = 4 \<or> n100 = 4 then (year - 1, 12, 31)
         else
           let leapyear = (n1 = 3 \<and> (if n4 = 24 then n100 = 3 else True));
               month = (n + 50) div 32;
               preceding = DAYS_BEFORE_MONTH ! nat month + bool_int (2 < month \<and> leapyear)
           in if n < preceding
              then let month' = month - 1;
                       preceding' = preceding
                          - (DAYS_IN_MONTH ! nat month' + bool_int (month' = 2 \<and> leapyear))
                   in (year, month', n - preceding' + 1)
              else (year, month, n - preceding + 1))"

definition digit :: "int \<Rightarrow> char" where
  "digit d = ''0123456789'' ! nat d"

function decimal :: "int \<Rightarrow> string" where
  "decimal n = (if n < 10 then [digit n] else decimal (n div 10) @ [digit (n mod 10)])"
  by pat_completeness auto
termination
  by (relation "measure nat") auto

definition pad2 :: "int \<Rightarrow> string" where
  "pad2 n = [digit (n div 10), digit (n mod 10)]"

text \<open>
  \<^verbatim>\<open>strftime\<close> reads the calendar fields only: the microseconds are dropped, which is
  the truncation to whole seconds. \<^verbatim>\<open>%Y\<close> prints the year in decimal (the C library
  does not pad it), the other fields are two digits wide.
\<close>

definition strftime :: "int \<Rightarrow> string" where
  "strftime t =
     (let secs = t div 1000000;
          (year, month, day) = ord2ymd (secs div 86400 + 1);
          sod = secs mod 86400
      in decimal year @ ''-'' @ pad2 month @ ''-'' @ pad2 day @ ''T''
         @ pad2 (sod div 3600) @ '':'' @ pad2 (sod mod 3600 div 60) @ '':'' @ pad2 (sod mod 60))"

definition truncate_seconds :: "int \<Rightarrow> int" where
  "truncate_seconds t = t - t mod 1000000"

section \<open>The clock\<close>

text \<open>
  One reading of the system clock: the instant in UTC and the offset of the host's local
  time zone, both in microseconds. \<^verbatim>\<open>datetime.utcnow()\<close> is the naive UTC reading,
  \<^verbatim>\<open>datetime.now()\<close> the naive local reading.
\<close>

record clock =
  utc :: int
  utcoffset :: int

definition utcnow :: "clock \<Rightarrow> int" where
  "utcnow clk = utc clk"

definition now :: "clock \<Rightarrow> int" where
  "now clk = utc clk + utcoffset clk"

text \<open>
  \<^verbatim>\<open>datetime.now().timestamp()\<close>: the naive local reading carries its fold bit and is
  converted back with the host's zone, which gives the POSIX timestamp of the instant
  that was read, whatever the offset of the host. It is kept here in microseconds since
  1970-01-01T00:00:00 UTC, which is 719162 days after 0001-01-01.
\<close>

definition posix_epoch :: int where
  "posix_epoch = 62135596800000000"

definition timestamp :: "clock \<Rightarrow> int" where
  "timestamp clk = utc clk - posix_epoch"

section \<open>Slot Proposer: \<^verbatim>\<open>find_slot\<close>\<close>

text \<open>\<^verbatim>\<open>manual.py\<close>, lines 10-20: returns the pair \<open>(start_iso, end_iso)\<close>.\<close>

definition manual_find_slot :: "clock \<Rightarrow> int \<Rightarrow> string \<Rightarrow> overflow_error + (string \<times> string)" where
  "manual_find_slot clk duration_minutes tz =
     (let now_dt = utcnow clk in
      case timedelta_hours 1 of Inl e \<Rightarrow> Inl e | Inr one_hour \<Rightarrow>
     (case datetime_add now_dt one_hour of Inl e \<Rightarrow> Inl e | Inr start \<Rightarrow>
     (case timedelta_minutes duration_minutes of Inl e \<Rightarrow> Inl e | Inr duration \<Rightarrow>
     (case datetime_add start duration of Inl e \<Rightarrow> Inl e | Inr end_dt \<Rightarrow>
        Inr (strftime start, strftime end_dt)))))"

text \<open>\<^verbatim>\<open>crew.py\<close>, lines 25-37: returns a dictionary with three keys.\<close>

record slot =
  slot_start_time :: string
  slot_end_time :: string
  slot_timezone :: string

definition crew_find_slot :: "clock \<Rightarrow> int \<Rightarrow> string \<Rightarrow> overflow_error + slot" where
  "crew_find_slot clk duration_minutes tz =
     (let now_dt = now clk in
      case timedelta_hours 1 of Inl e \<Rightarrow> Inl e | Inr one_hour \<Rightarrow>
     (case datetime_add now_dt one_hour of Inl e \<Rightarrow> Inl e | Inr start \<Rightarrow>
     (case timedelta_minutes duration_minutes of Inl e \<Rightarrow> Inl e | Inr duration \<Rightarrow>
     (case datetime_add start duration of Inl e \<Rightarrow> Inl e | Inr end_dt \<Rightarrow>
        Inr \<lparr>slot_start_time = strftime start, slot_end_time = strftime end_dt,
             slot_timezone = tz\<rparr>))))"

section \<open>Event Publisher: the collaborators\<close>

text \<open>
  An exception is either an instance of \<^verbatim>\<open>Exception\<close>, which \<^verbatim>\<open>except Exception\<close>
  catches, or of \<^verbatim>\<open>BaseException\<close> only (\<^verbatim>\<open>KeyboardInterrupt\<close>, \<^verbatim>\<open>SystemExit\<close>), which
  it does not. The string is \<^verbatim>\<open>str(e)\<close>.
\<close>

datatype py_exception = PyException string | PyBaseException string

text \<open>
  What the scripts read of a \<^verbatim>\<open>Credentials\<close> object: the properties \<^verbatim>\<open>valid\<close>,
  \<^verbatim>\<open>expired\<close> and \<^verbatim>\<open>refresh_token\<close>, and its serialisation \<^verbatim>\<open>to_json()\<close>.
\<close>

record credentials =
  valid :: bool
  expired :: bool
  refresh_token :: "string option"
  to_json :: string

datatype flow = Flow string

datatype service = Service credentials

text \<open>The event dictionary of \<^verbatim>\<open>manual.py\<close> lines 64-80 and \<^verbatim>\<open>crew.py\<close> lines 82-98.\<close>

record event =
  event_summary :: string
  event_description :: "string option"
  start_dateTime :: string
  start_timeZone :: string
  end_dateTime :: string
  end_timeZone :: string
  event_attendees :: "string list"
  requestId :: string
  conferenceSolutionKey_type :: string
  reminders_useDefault :: bool
  guestsCanModify :: bool
  guestsCanInviteOthers :: bool
  guestsCanSeeOtherGuests :: bool

record insert_call =
  calendarId :: string
  body :: event
  conferenceDataVersion :: int
  sendUpdates :: string

text \<open>
  The libraries and the provider are parameters of the model. Each call that can raise
  returns a sum. \<open>from_authorized_user_file\<close> parses the content of the token file;
  \<open>refresh\<close> returns the credential as the in-place refresh leaves it;
  \<open>open_for_writing\<close> is the error of \<^verbatim>\<open>open(token_path, 'w')\<close>, if any;
  \<open>execute_insert\<close> is \<^verbatim>\<open>service.events().insert(...).execute()\<close> and returns the event
  resource as a dictionary; \<open>timestamp_str\<close> is the text that the f-string prints for
  the floating-point number \<^verbatim>\<open>datetime.now().timestamp()\<close>, as a function of the POSIX
  timestamp in microseconds.
\<close>

record env =
  from_authorized_user_file :: "string \<Rightarrow> py_exception + credentials"
  refresh :: "credentials \<Rightarrow> py_exception + credentials"
  from_client_secrets_file :: "string \<Rightarrow> py_exception + flow"
  run_local_server :: "flow \<Rightarrow> py_exception + credentials"
  open_for_writing :: "string \<Rightarrow> py_exception option"
  build :: "credentials \<Rightarrow> py_exception + service"
  execute_insert :: "service \<Rightarrow> insert_call \<Rightarrow> py_exception + (string \<rightharpoonup> string)"
  timestamp_str :: "int \<Rightarrow> string"

type_synonym files = "string \<rightharpoonup> string"

text \<open>The calls to collaborators that an invocation makes, in order.\<close>

datatype effect =
    Load_token string
  | Refresh
  | Client_secrets string
  | Run_local_server
  | Write_token string string
  | Build
  | Insert insert_call
  | Print_traceback

text \<open>The arguments of \<^verbatim>\<open>create_calendar_event\<close>.\<close>

record request =
  summary :: string
  start_time :: string
  end_time :: string
  attendees :: "string list"
  description :: "string option"
  timezone :: string
  credentials_path :: string
  token_path :: string

datatype event_result =
    Success (event_link: "string option") (meet_link: "string option") (event_id: "string option")
  | Failure (error_message: string)

datatype 'a outcome = Returned 'a | Raised py_exception

section \<open>Event Publisher: credential acquisition\<close>

text \<open>
  \<^verbatim>\<open>manual.py\<close> lines 28-32, \<^verbatim>\<open>crew.py\<close> lines 60-65: the cached credential, or
  \<^verbatim>\<open>None\<close> when the file does not exist.
\<close>

definition load_token :: "env \<Rightarrow> string \<Rightarrow> files \<Rightarrow> (py_exception + credentials option) \<times> effect list" where
  "load_token e tpath fs =
     (case fs tpath of
        None \<Rightarrow> (Inr None, [])
      | Some content \<Rightarrow>
          (case from_authorized_user_file e content of
             Inl err \<Rightarrow> (Inl err, [Load_token tpath])
           | Inr c \<Rightarrow> (Inr (Some c), [Load_token tpath])))"

text \<open>Truth value of \<^verbatim>\<open>creds.refresh_token\<close>: \<^verbatim>\<open>None\<close> and the empty string are false.\<close>

definition truthy :: "string option \<Rightarrow> bool" where
  "truthy s = (case s of None \<Rightarrow> False | Some v \<Rightarrow> v \<noteq> [])"

text \<open>The \<^verbatim>\<open>else\<close> branch, \<^verbatim>\<open>manual.py\<close> lines 39-40, \<^verbatim>\<open>crew.py\<close> lines 72-73.\<close>

definition interactive_authorization :: "env \<Rightarrow> string \<Rightarrow> (py_exception + credentials) \<times> effect list" where
  "interactive_authorization e cpath =
     (case from_client_secrets_file e cpath of
        Inl err \<Rightarrow> (Inl err, [Client_secrets cpath])
      | Inr fl \<Rightarrow>
          (case run_local_server e fl of
             Inl err \<Rightarrow> (Inl err, [Client_secrets cpath, Run_local_server])
           | Inr c \<Rightarrow> (Inr c, [Client_secrets cpath, Run_local_server])))"

text \<open>The inner \<^verbatim>\<open>if\<close>, \<^verbatim>\<open>manual.py\<close> lines 36-40, \<^verbatim>\<open>crew.py\<close> lines 69-73.\<close>

definition renew_credentials :: "env \<Rightarrow> string \<Rightarrow> credentials option \<Rightarrow> (py_exception + credentials) \<times> effect list" where
  "renew_credentials e cpath creds =
     (case creds of
        None \<Rightarrow> interactive_authorization e cpath
      | Some c \<Rightarrow>
          if expired c \<and> truthy (refresh_token c)
          then (case refresh e c of
                  Inl err \<Rightarrow> (Inl err, [Refresh])
                | Inr c' \<Rightarrow> (Inr c', [Refresh]))
          else interactive_authorization e cpath)"

text \<open>
  Saving the token, \<^verbatim>\<open>manual.py\<close> lines 42-43, \<^verbatim>\<open>crew.py\<close> lines 76-77. Opening for
  writing replaces the content of the file.
\<close>

definition save_token :: "env \<Rightarrow> string \<Rightarrow> credentials \<Rightarrow> files \<Rightarrow> (py_exception + credentials) \<times> files \<times> effect list" where
  "save_token e tpath c fs =
     (case open_for_writing e tpath of
        Some err \<Rightarrow> (Inl err, fs, [])
      | None \<Rightarrow> (Inr c, fs(tpath \<mapsto> to_json c), [Write_token tpath (to_json c)]))"

definition renew_and_save :: "env \<Rightarrow> string \<Rightarrow> string \<Rightarrow> credentials option \<Rightarrow> files \<Rightarrow> (py_exception + credentials) \<times> files \<times> effect list" where
  "renew_and_save e cpath tpath creds fs =
     (case renew_credentials e cpath creds of
        (Inl err, es) \<Rightarrow> (Inl err, fs, es)
      | (Inr c, es) \<Rightarrow>
          (case save_token e tpath c fs of
             (r, fs', es') \<Rightarrow> (r, fs', es @ es')))"

text \<open>
  The whole of \<^verbatim>\<open>manual.py\<close> lines 28-43 and \<^verbatim>\<open>crew.py\<close> lines 60-77, which are the
  same statements: \<^verbatim>\<open>if not creds or not creds.valid\<close> renews and saves.
\<close>

definition acquire_credentials :: "env \<Rightarrow> string \<Rightarrow> string \<Rightarrow> files \<Rightarrow> (py_exception + credentials) \<times> files \<times> effect list" where
  "acquire_credentials e cpath tpath fs =
     (case load_token e tpath fs of
        (Inl err, es) \<Rightarrow> (Inl err, fs, es)
      | (Inr None, es) \<Rightarrow>
          (case renew_and_save e cpath tpath None fs of
             (r, fs', es') \<Rightarrow> (r, fs', es @ es'))
      | (Inr (Some c), es) \<Rightarrow>
          if valid c then (Inr c, fs, es)
          else (case renew_and_save e cpath tpath (Some c) fs of
                  (r, fs', es') \<Rightarrow> (r, fs', es @ es')))"

text \<open>\<^verbatim>\<open>manual.py\<close> lines 23-45.\<close>

definition get_calendar_service :: "env \<Rightarrow> string \<Rightarrow> string \<Rightarrow> files \<Rightarrow> (py_exception + service) \<times> files \<times> effect list" where
  "get_calendar_service e cpath tpath fs =
     (case acquire_credentials e cpath tpath fs of
        (Inl err, fs', es) \<Rightarrow> (Inl err, fs', es)
      | (Inr c, fs', es) \<Rightarrow>
          (case build e c of
             Inl err \<Rightarrow> (Inl err, fs', es @ [Build])
           | Inr svc \<Rightarrow> (Inr svc, fs', es @ [Build])))"

section \<open>Event Publisher: \<^verbatim>\<open>create_calendar_event\<close>\<close>

definition request_id :: "env \<Rightarrow> clock \<Rightarrow> string" where
  "request_id e clk = ''event_'' @ timestamp_str e (timestamp clk)"

definition make_event :: "env \<Rightarrow> clock \<Rightarrow> request \<Rightarrow> event" where
  "make_event e clk req =
     \<lparr>event_summary = summary req,
      event_description = description req,
      start_dateTime = start_time req, start_timeZone = timezone req,
      end_dateTime = end_time req, end_timeZone = timezone req,
      event_attendees = attendees req,
      requestId = request_id e clk,
      conferenceSolutionKey_type = ''hangoutsMeet'',
      reminders_useDefault = True,
      guestsCanModify = True,
      guestsCanInviteOthers = True,
      guestsCanSeeOtherGuests = True\<rparr>"

definition make_insert_call :: "event \<Rightarrow> insert_call" where
  "make_insert_call ev =
     \<lparr>calendarId = ''primary'', body = ev, conferenceDataVersion = 1, sendUpdates = ''all''\<rparr>"

definition success :: "(string \<rightharpoonup> string) \<Rightarrow> event_result" where
  "success created_event =
     Success (created_event ''htmlLink'') (created_event ''hangoutLink'') (created_event ''id'')"

text \<open>
  \<^verbatim>\<open>except Exception as e\<close> of \<^verbatim>\<open>manual.py\<close> lines 96-100: an \<^verbatim>\<open>Exception\<close> becomes the
  error dictionary, anything else goes on to the caller.
\<close>

definition manual_handler :: "py_exception \<Rightarrow> effect list \<Rightarrow> event_result outcome \<times> effect list" where
  "manual_handler err es =
     (case err of
        PyException msg \<Rightarrow> (Returned (Failure msg), es)
      | PyBaseException msg \<Rightarrow> (Raised err, es))"

text \<open>The same in \<^verbatim>\<open>crew.py\<close> lines 114-119, which prints the traceback first.\<close>

definition crew_handler :: "py_exception \<Rightarrow> effect list \<Rightarrow> event_result outcome \<times> effect list" where
  "crew_handler err es =
     (case err of
        PyException msg \<Rightarrow> (Returned (Failure msg), es @ [Print_traceback])
      | PyBaseException msg \<Rightarrow> (Raised err, es))"

text \<open>The body of the \<^verbatim>\<open>try\<close> once the service is built, in both files.\<close>

definition insert_event :: "env \<Rightarrow> clock \<Rightarrow> request \<Rightarrow> service \<Rightarrow> (py_exception + event_result) \<times> effect list" where
  "insert_event e clk req svc =
     (let call = make_insert_call (make_event e clk req) in
      case execute_insert e svc call of
        Inl err \<Rightarrow> (Inl err, [Insert call])
      | Inr created_event \<Rightarrow> (Inr (success created_event), [Insert call]))"

text \<open>\<^verbatim>\<open>manual.py\<close> lines 48-100.\<close>

definition manual_create_calendar_event :: "env \<Rightarrow> clock \<Rightarrow> request \<Rightarrow> files \<Rightarrow> event_result outcome \<times> files \<times> effect list" where
  "manual_create_calendar_event e clk req fs =
     (case get_calendar_service e (credentials_path req) (token_path req) fs of
        (Inl err, fs', es) \<Rightarrow>
          (case manual_handler err es of (r, es') \<Rightarrow> (r, fs', es'))
      | (Inr svc, fs', es) \<Rightarrow>
          (case insert_event e clk req svc of
             (Inl err, es') \<Rightarrow>
               (case manual_handler err (es @ es') of (r, es'') \<Rightarrow> (r, fs', es''))
           | (Inr res, es') \<Rightarrow> (Returned res, fs', es @ es')))"

text \<open>\<^verbatim>\<open>crew.py\<close> lines 40-119: the credential code is inline, followed by \<^verbatim>\<open>build\<close>.\<close>

definition crew_create_calendar_event :: "env \<Rightarrow> clock \<Rightarrow> request \<Rightarrow> files \<Rightarrow> event_result outcome \<times> files \<times> effect list" where
  "crew_create_calendar_event e clk req fs =
     (case acquire_credentials e (credentials_path req) (token_path req) fs of
        (Inl err, fs', es) \<Rightarrow>
          (case crew_handler err es of (r, es') \<Rightarrow> (r, fs', es'))
      | (Inr c, fs', es) \<Rightarrow>
          (case build e c of
             Inl err \<Rightarrow>
               (case crew_handler err (es @ [Build]) of (r, es') \<Rightarrow> (r, fs', es'))
           | Inr svc \<Rightarrow>
               (case insert_event e clk req svc of
                  (Inl err, es') \<Rightarrow>
                    (case crew_handler err (es @ [Build] @ es') of (r, es'') \<Rightarrow> (r, fs', es''))
                | (Inr res, es') \<Rightarrow> (Returned res, fs', es @ [Build] @ es'))))"

section \<open>Both variants under one name\<close>

datatype variant = Manual | Crew

definition handler :: "variant \<Rightarrow> py_exception \<Rightarrow> effect list \<Rightarrow> event_result outcome \<times> effect list" where
  "handler v = (case v of Manual \<Rightarrow> manual_handler | Crew \<Rightarrow> crew_handler)"

definition create_calendar_event :: "variant \<Rightarrow> env \<Rightarrow> clock \<Rightarrow> request \<Rightarrow> files \<Rightarrow> event_result outcome \<times> files \<times> effect list" where
  "create_calendar_event v =
     (case v of Manual \<Rightarrow> manual_create_calendar_event | Crew \<Rightarrow> crew_create_calendar_event)"

text \<open>What the handler of each variant adds to the calls made: the printed traceback.\<close>

definition handler_effects :: "variant \<Rightarrow> effect list" where
  "handler_effects v = (case v of Manual \<Rightarrow> [] | Crew \<Rightarrow> [Print_traceback])"

section \<open>Observations on the calls made\<close>

text \<open>The interactive authorization flow: reading the client secrets and running the local server.\<close>

fun interactive :: "effect \<Rightarrow> bool" where
  "interactive (Client_secrets p) = True"
| "interactive Run_local_server = True"
| "interactive x = False"

fun is_insert :: "effect \<Rightarrow> bool" where
  "is_insert (Insert call) = True"
| "is_insert x = False"

fun sent_request_id :: "effect \<Rightarrow> string list" where
  "sent_request_id (Insert call) = [requestId (body call)]"
| "sent_request_id x = []"

definition sent_request_ids :: "effect list \<Rightarrow> string list" where
  "sent_request_ids es = concat (map sent_request_id es)"

section \<open>Concrete clocks, files and stubs\<close>

text \<open>
  2026-11-03T12:00:00 UTC, read on a host whose local time is UTC, and the same instant
  (123456 microseconds later) read on a host five hours east of UTC.
\<close>

definition clock_utc_host :: clock where
  "clock_utc_host = \<lparr>utc = 63929304000000000, utcoffset = 0\<rparr>"

definition clock_plus5_host :: clock where
  "clock_plus5_host = \<lparr>utc = 63929304000123456, utcoffset = 18000000000\<rparr>"

text \<open>
  Two instants one hour apart that share the local reading 2026-11-01T01:30:00, on a host
  whose zone leaves daylight saving time at 06:00 UTC that day: 05:30 UTC at four hours
  west of UTC, and 06:30 UTC at five hours west.
\<close>

definition clock_before_fold :: clock where
  "clock_before_fold = \<lparr>utc = 63929107800000000, utcoffset = - 14400000000\<rparr>"

definition clock_after_fold :: clock where
  "clock_after_fold = \<lparr>utc = 63929111400000000, utcoffset = - 18000000000\<rparr>"

definition sample_request :: request where
  "sample_request =
     \<lparr>summary = ''Project Meeting'',
      start_time = ''2026-11-03T13:00:00'',
      end_time = ''2026-11-03T14:00:00'',
      attendees = [''a@example.com''],
      description = None,
      timezone = ''UTC'',
      credentials_path = ''./test.json'',
      token_path = ''token.json''\<rparr>"

definition valid_credential :: credentials where
  "valid_credential =
     \<lparr>valid = True, expired = False, refresh_token = Some ''r1'', to_json = ''token-V''\<rparr>"

definition expired_credential :: credentials where
  "expired_credential =
     \<lparr>valid = False, expired = True, refresh_token = Some ''r1'', to_json = ''token-A''\<rparr>"

definition refreshed_credential :: credentials where
  "refreshed_credential =
     \<lparr>valid = True, expired = False, refresh_token = Some ''r1'', to_json = ''token-B''\<rparr>"

definition no_files :: files where
  "no_files = Map.empty"

definition cached_files :: files where
  "cached_files = [''token.json'' \<mapsto> ''token-V'']"

definition expired_files :: files where
  "expired_files = [''token.json'' \<mapsto> ''token-A'']"

definition corrupt_files :: files where
  "corrupt_files = [''token.json'' \<mapsto> ''garbage'']"

definition full_resource :: "string \<rightharpoonup> string" where
  "full_resource = [''htmlLink'' \<mapsto> ''L'', ''hangoutLink'' \<mapsto> ''M'', ''id'' \<mapsto> ''X'']"

definition resource_without_meet :: "string \<rightharpoonup> string" where
  "resource_without_meet = [''htmlLink'' \<mapsto> ''L'', ''id'' \<mapsto> ''X'']"

text \<open>
  A printed timestamp: the seconds, a point, and the six digits of the microseconds
  without their trailing zeros (one \<^verbatim>\<open>0\<close> when there are none).
\<close>

definition pad6 :: "int \<Rightarrow> string" where
  "pad6 n =
     [digit (n div 100000), digit (n div 10000 mod 10), digit (n div 1000 mod 10),
      digit (n div 100 mod 10), digit (n div 10 mod 10), digit (n mod 10)]"

definition strip_zeros :: "string \<Rightarrow> string" where
  "strip_zeros s = rev (dropWhile (\<lambda>c. c = CHR ''0'') (rev s))"

definition stub_timestamp_str :: "int \<Rightarrow> string" where
  "stub_timestamp_str t =
     decimal (t div 1000000) @ ''.''
       @ (if strip_zeros (pad6 (t mod 1000000)) = [] then ''0''
          else strip_zeros (pad6 (t mod 1000000)))"

text \<open>
  A provider that accepts every event, a token file parser that knows two contents, a
  refresh that succeeds, and no client-secrets file.
\<close>

definition stub_env :: env where
  "stub_env =
     \<lparr>from_authorized_user_file =
        (\<lambda>content. if content = ''token-V'' then Inr valid_credential
                   else if content = ''token-A'' then Inr expired_credential
                   else Inl (PyException ''Expecting value: line 1 column 1 (char 0)'')),
      refresh = (\<lambda>c. Inr refreshed_credential),
      from_client_secrets_file =
        (\<lambda>p. Inl (PyException ''[Errno 2] No such file or directory'')),
      run_local_server = (\<lambda>fl. Inr refreshed_credential),
      open_for_writing = (\<lambda>p. None),
      build = (\<lambda>c. Inr (Service c)),
      execute_insert = (\<lambda>svc call. Inr full_resource),
      timestamp_str = stub_timestamp_str\<rparr>"

text \<open>The provider omits the conferencing link.\<close>

definition no_meet_env :: env where
  "no_meet_env = stub_env\<lparr>execute_insert := (\<lambda>svc call. Inr resource_without_meet)\<rparr>"

text \<open>The provider rejects the event.\<close>

definition failing_insert_env :: env where
  "failing_insert_env =
     stub_env\<lparr>execute_insert := (\<lambda>svc call. Inl (PyException ''HttpError 400''))\<rparr>"

text \<open>
  The user interrupts the request: \<^verbatim>\<open>KeyboardInterrupt\<close> is raised during the insert call.
  It is not an instance of \<^verbatim>\<open>Exception\<close>, and its text is empty.
\<close>

definition interrupted_insert_env :: env where
  "interrupted_insert_env =
     stub_env\<lparr>execute_insert := (\<lambda>svc call. Inl (PyBaseException []))\<rparr>"

text \<open>A refresh that succeeds and leaves the serialised credential as it was.\<close>

definition quiet_refresh_env :: env where
  "quiet_refresh_env =
     stub_env\<lparr>refresh := (\<lambda>c. Inr (c\<lparr>valid := True, expired := False\<rparr>))\<rparr>"

text \<open>Two calls one after the other that read the same clock value, the second on the
  files the first leaves.\<close>

definition first_call :: "variant \<Rightarrow> event_result outcome \<times> files \<times> effect list" where
  "first_call v = create_calendar_event v stub_env clock_utc_host sample_request cached_files"

definition second_call :: "variant \<Rightarrow> event_result outcome \<times> files \<times> effect list" where
  "second_call v =
     create_calendar_event v stub_env clock_utc_host sample_request (fst (snd (first_call v)))"

section \<open>Slot Proposer: facts\<close>

lemma strftime_truncate_seconds: "strftime (truncate_seconds t) = strftime t"
proof -
  have "(t - t mod 1000000) div 1000000 = t div 1000000"
    by (simp add: minus_mod_eq_mult_div)
  then show ?thesis
    by (simp add: strftime_def truncate_seconds_def)
qed

lemma truncate_seconds_add:
  "truncate_seconds (t + k * 1000000) = truncate_seconds t + k * 1000000"
  by (simp add: truncate_seconds_def)

lemma strftime_whole_seconds_later:
  "strftime (t + k * 1000000) = strftime (truncate_seconds t + k * 1000000)"
  using strftime_truncate_seconds [of "t + k * 1000000"]
  by (simp add: truncate_seconds_add)

lemma truncate_seconds_bounds: "truncate_seconds t \<le> t \<and> t < truncate_seconds t + 1000000"
  by (simp add: truncate_seconds_def)

lemma find_slot_steps:
  assumes "0 \<le> d" and "0 \<le> t" and "t + 3600000000 + d * 60000000 \<le> datetime_max"
  shows "timedelta_hours 1 = Inr 3600000000"
    and "datetime_add t 3600000000 = Inr (t + 3600000000)"
    and "timedelta_minutes d = Inr (d * 60000000)"
    and "datetime_add (t + 3600000000) (d * 60000000) = Inr (t + 3600000000 + d * 60000000)"
  using assms
  by (simp_all add: timedelta_hours_def timedelta_minutes_def timedelta_of_us_def
        datetime_add_def datetime_max_def)

lemma manual_find_slot_value:
  assumes "0 \<le> d" and "0 \<le> utcnow clk"
    and "utcnow clk + 3600000000 + d * 60000000 \<le> datetime_max"
  shows "manual_find_slot clk d tz =
           Inr (strftime (utcnow clk + 3600000000),
                strftime (utcnow clk + 3600000000 + d * 60000000))"
  by (simp add: manual_find_slot_def find_slot_steps [OF assms])

lemma crew_find_slot_value:
  assumes "0 \<le> d" and "0 \<le> now clk"
    and "now clk + 3600000000 + d * 60000000 \<le> datetime_max"
  shows "crew_find_slot clk d tz =
           Inr \<lparr>slot_start_time = strftime (now clk + 3600000000),
                slot_end_time = strftime (now clk + 3600000000 + d * 60000000),
                slot_timezone = tz\<rparr>"
  by (simp add: crew_find_slot_def find_slot_steps [OF assms])

lemma start_rendering:
  "strftime (t + 3600000000) = strftime (truncate_seconds t + 3600000000)"
  using strftime_whole_seconds_later [of t 3600] by simp

lemma end_rendering:
  "strftime (t + 3600000000 + d * 60000000)
     = strftime (truncate_seconds t + 3600000000 + d * 60000000)"
  using strftime_whole_seconds_later [of t "3600 + d * 60"] by (simp add: algebra_simps)

text \<open>On a host whose local time is UTC the two variants return the same strings.\<close>

lemma find_slot_variants_agree_on_utc_host:
  assumes "utcoffset clk = 0"
  shows "map_sum id (\<lambda>s. (slot_start_time s, slot_end_time s)) (crew_find_slot clk d tz)
           = manual_find_slot clk d tz"
  using assms
  by (simp add: manual_find_slot_def crew_find_slot_def utcnow_def now_def Let_def
        split: sum.splits)

lemma plus5_host_readings:
  "(0::int) \<le> 60"
  "0 \<le> utcnow clock_plus5_host"
  "utcnow clock_plus5_host + 3600000000 + 60 * 60000000 \<le> datetime_max"
  "0 \<le> now clock_plus5_host"
  "now clock_plus5_host + 3600000000 + 60 * 60000000 \<le> datetime_max"
  by code_simp+

text \<open>
  C2, as amended. For every \<open>duration_minutes \<ge> 0\<close> and every timezone label, when the
  clock reading is a datetime and the end of the slot still is one (not after
  9999-12-31T23:59:59.999999), \<^verbatim>\<open>find_slot\<close> returns the slot whose start is the rendering of
  the reading truncated to whole seconds plus exactly one hour and whose end is the
  rendering of that start plus \<open>duration_minutes\<close> minutes; the start is strictly later
  than any instant read from the same clock before the call. The procedural variant
  reads the UTC clock, the agent variant the local clock.
\<close>

theorem find_slot_one_hour_ahead:
  assumes "0 \<le> d"
    and "0 \<le> utcnow clk" and "utcnow clk + 3600000000 + d * 60000000 \<le> datetime_max"
    and "0 \<le> now clk" and "now clk + 3600000000 + d * 60000000 \<le> datetime_max"
    and "t_utc \<le> utcnow clk" and "t_local \<le> now clk"
  shows "manual_find_slot clk d tz =
           Inr (strftime (truncate_seconds (utcnow clk) + 3600000000),
                strftime ((truncate_seconds (utcnow clk) + 3600000000) + d * 60000000))
         \<and> t_utc < truncate_seconds (utcnow clk) + 3600000000
         \<and> crew_find_slot clk d tz =
           Inr \<lparr>slot_start_time = strftime (truncate_seconds (now clk) + 3600000000),
                slot_end_time = strftime ((truncate_seconds (now clk) + 3600000000) + d * 60000000),
                slot_timezone = tz\<rparr>
         \<and> t_local < truncate_seconds (now clk) + 3600000000"
proof -
  have m: "manual_find_slot clk d tz =
           Inr (strftime (truncate_seconds (utcnow clk) + 3600000000),
                strftime ((truncate_seconds (utcnow clk) + 3600000000) + d * 60000000))"
    using manual_find_slot_value [OF assms(1) assms(2) assms(3)]
    by (simp add: start_rendering [of "utcnow clk"] end_rendering [of "utcnow clk" d])
  have c: "crew_find_slot clk d tz =
           Inr \<lparr>slot_start_time = strftime (truncate_seconds (now clk) + 3600000000),
                slot_end_time = strftime ((truncate_seconds (now clk) + 3600000000) + d * 60000000),
                slot_timezone = tz\<rparr>"
    using crew_find_slot_value [OF assms(1) assms(4) assms(5)]
    by (simp add: start_rendering [of "now clk"] end_rendering [of "now clk" d])
  have u: "t_utc < truncate_seconds (utcnow clk) + 3600000000"
    using truncate_seconds_bounds [of "utcnow clk"] assms(6) by linarith
  have l: "t_local < truncate_seconds (now clk) + 3600000000"
    using truncate_seconds_bounds [of "now clk"] assms(7) by linarith
  from m c u l show ?thesis by simp
qed

theorem find_slot_one_hour_ahead_witness:
  "(0::int) \<le> 60
   \<and> 0 \<le> utcnow clock_plus5_host
   \<and> utcnow clock_plus5_host + 3600000000 + 60 * 60000000 \<le> datetime_max
   \<and> 0 \<le> now clock_plus5_host
   \<and> now clock_plus5_host + 3600000000 + 60 * 60000000 \<le> datetime_max
   \<and> manual_find_slot clock_plus5_host 60 ''UTC'' =
         Inr (strftime (truncate_seconds (utcnow clock_plus5_host) + 3600000000),
              strftime ((truncate_seconds (utcnow clock_plus5_host) + 3600000000) + 60 * 60000000))
   \<and> utcnow clock_plus5_host < truncate_seconds (utcnow clock_plus5_host) + 3600000000
   \<and> crew_find_slot clock_plus5_host 60 ''UTC'' =
         Inr \<lparr>slot_start_time = strftime (truncate_seconds (now clock_plus5_host) + 3600000000),
              slot_end_time =
                strftime ((truncate_seconds (now clock_plus5_host) + 3600000000) + 60 * 60000000),
              slot_timezone = ''UTC''\<rparr>
   \<and> now clock_plus5_host < truncate_seconds (now clock_plus5_host) + 3600000000"
proof -
  note h = plus5_host_readings
  have u: "utcnow clock_plus5_host \<le> utcnow clock_plus5_host" by (rule order_refl)
  have l: "now clock_plus5_host \<le> now clock_plus5_host" by (rule order_refl)
  show ?thesis
    using h find_slot_one_hour_ahead [OF h u l, of "''UTC''"] by blast
qed

text \<open>
  C2 as stated fails: a duration of 10000000000 minutes is not negative, and the end of
  the slot would lie after year 9999, so the addition raises \<^verbatim>\<open>OverflowError\<close> and no slot
  is returned.
\<close>

theorem find_slot_overflow_example:
  "(0::int) \<le> 10000000000
   \<and> manual_find_slot clock_utc_host 10000000000 ''UTC'' = Inl Date_value_out_of_range
   \<and> crew_find_slot clock_utc_host 10000000000 ''UTC'' = Inl Date_value_out_of_range"
  by code_simp

text \<open>
  C7, as amended. For every \<open>duration_minutes \<ge> 0\<close> for which the slot is representable,
  the end of the returned slot is not before its start, and it is strictly after the
  start exactly when \<open>duration_minutes \<ge> 1\<close>. Start and end are the instants, in whole
  seconds, that the returned strings render.
\<close>

theorem find_slot_end_not_before_start:
  assumes "0 \<le> d"
    and "0 \<le> utcnow clk" and "utcnow clk + 3600000000 + d * 60000000 \<le> datetime_max"
    and "0 \<le> now clk" and "now clk + 3600000000 + d * 60000000 \<le> datetime_max"
  shows "manual_find_slot clk d tz =
           Inr (strftime (truncate_seconds (utcnow clk + 3600000000)),
                strftime (truncate_seconds (utcnow clk + 3600000000 + d * 60000000)))
         \<and> truncate_seconds (utcnow clk + 3600000000)
             \<le> truncate_seconds (utcnow clk + 3600000000 + d * 60000000)
         \<and> (truncate_seconds (utcnow clk + 3600000000)
              < truncate_seconds (utcnow clk + 3600000000 + d * 60000000)) = (1 \<le> d)
         \<and> crew_find_slot clk d tz =
           Inr \<lparr>slot_start_time = strftime (truncate_seconds (now clk + 3600000000)),
                slot_end_time = strftime (truncate_seconds (now clk + 3600000000 + d * 60000000)),
                slot_timezone = tz\<rparr>
         \<and> truncate_seconds (now clk + 3600000000)
             \<le> truncate_seconds (now clk + 3600000000 + d * 60000000)
         \<and> (truncate_seconds (now clk + 3600000000)
              < truncate_seconds (now clk + 3600000000 + d * 60000000)) = (1 \<le> d)"
proof -
  have shift: "truncate_seconds (t + d * 60000000) = truncate_seconds t + d * 60000000" for t
    using truncate_seconds_add [of t "d * 60"] by (simp add: algebra_simps)
  have m: "manual_find_slot clk d tz =
           Inr (strftime (truncate_seconds (utcnow clk + 3600000000)),
                strftime (truncate_seconds (utcnow clk + 3600000000 + d * 60000000)))"
    using manual_find_slot_value [OF assms(1) assms(2) assms(3)]
    by (simp add: strftime_truncate_seconds)
  have c: "crew_find_slot clk d tz =
           Inr \<lparr>slot_start_time = strftime (truncate_seconds (now clk + 3600000000)),
                slot_end_time = strftime (truncate_seconds (now clk + 3600000000 + d * 60000000)),
                slot_timezone = tz\<rparr>"
    using crew_find_slot_value [OF assms(1) assms(4) assms(5)]
    by (simp add: strftime_truncate_seconds)
  have le: "truncate_seconds t \<le> truncate_seconds (t + d * 60000000)" for t
    using assms(1) by (simp add: shift)
  have less: "(truncate_seconds t < truncate_seconds (t + d * 60000000)) = (1 \<le> d)" for t
    using assms(1) by (simp add: shift) linarith
  from m c le less show ?thesis by simp
qed

theorem find_slot_end_not_before_start_witness:
  "(0::int) \<le> 60
   \<and> 0 \<le> utcnow clock_plus5_host
   \<and> utcnow clock_plus5_host + 3600000000 + 60 * 60000000 \<le> datetime_max
   \<and> 0 \<le> now clock_plus5_host
   \<and> now clock_plus5_host + 3600000000 + 60 * 60000000 \<le> datetime_max
   \<and> manual_find_slot clock_plus5_host 60 ''UTC'' =
         Inr (strftime (truncate_seconds (utcnow clock_plus5_host + 3600000000)),
              strftime (truncate_seconds (utcnow clock_plus5_host + 3600000000 + 60 * 60000000)))
   \<and> truncate_seconds (utcnow clock_plus5_host + 3600000000)
         < truncate_seconds (utcnow clock_plus5_host + 3600000000 + 60 * 60000000)
   \<and> crew_find_slot clock_plus5_host 60 ''UTC'' =
         Inr \<lparr>slot_start_time = strftime (truncate_seconds (now clock_plus5_host + 3600000000)),
              slot_end_time =
                strftime (truncate_seconds (now clock_plus5_host + 3600000000 + 60 * 60000000)),
              slot_timezone = ''UTC''\<rparr>
   \<and> truncate_seconds (now clock_plus5_host + 3600000000)
         < truncate_seconds (now clock_plus5_host + 3600000000 + 60 * 60000000)"
proof -
  note h = plus5_host_readings
  have one: "(1::int) \<le> 60" by simp
  show ?thesis
    using h one find_slot_end_not_before_start [OF h, of "''UTC''"] by blast
qed

text \<open>
  C7 as stated fails at the boundary value: with \<open>duration_minutes = 0\<close> the slot is
  returned and its end is its start, in both variants.
\<close>

theorem find_slot_zero_duration_example:
  "manual_find_slot clock_utc_host 0 ''UTC''
     = Inr (''2026-11-03T13:00:00'', ''2026-11-03T13:00:00'')
   \<and> crew_find_slot clock_utc_host 0 ''UTC''
     = Inr \<lparr>slot_start_time = ''2026-11-03T13:00:00'', slot_end_time = ''2026-11-03T13:00:00'',
            slot_timezone = ''UTC''\<rparr>"
  by code_simp

text \<open>
  C8 at a failing input. At the same instant, on a host whose local time is five hours
  east of UTC, the procedural variant (which reads \<^verbatim>\<open>datetime.utcnow()\<close>) and the agent
  variant (which reads \<^verbatim>\<open>datetime.now()\<close>) return different start and end strings.
\<close>

theorem find_slot_variants_differ_off_utc:
  "manual_find_slot clock_plus5_host 60 ''UTC''
     = Inr (''2026-11-03T13:00:00'', ''2026-11-03T14:00:00'')
   \<and> crew_find_slot clock_plus5_host 60 ''UTC''
     = Inr \<lparr>slot_start_time = ''2026-11-03T18:00:00'', slot_end_time = ''2026-11-03T19:00:00'',
            slot_timezone = ''UTC''\<rparr>"
  by code_simp

text \<open>
  C10. The timezone argument does not influence the result of the procedural variant at
  all, and in the agent variant it does not influence the start and end strings or
  whether the call raises: the result for any label is the result for any other label
  with the timezone entry replaced, so the label is only echoed back.
\<close>

theorem find_slot_ignores_timezone:
  "manual_find_slot clk d tz1 = manual_find_slot clk d tz2
   \<and> crew_find_slot clk d tz1
       = map_sum id (\<lambda>s. s\<lparr>slot_timezone := tz1\<rparr>) (crew_find_slot clk d tz2)
   \<and> map_sum id slot_start_time (crew_find_slot clk d tz1)
       = map_sum id slot_start_time (crew_find_slot clk d tz2)
   \<and> map_sum id slot_end_time (crew_find_slot clk d tz1)
       = map_sum id slot_end_time (crew_find_slot clk d tz2)
   \<and> map_sum id slot_timezone (crew_find_slot clk d tz1)
       = map_sum id (\<lambda>s. tz1) (crew_find_slot clk d tz2)"
  by (simp add: manual_find_slot_def crew_find_slot_def Let_def split: sum.splits)

theorem find_slot_ignores_timezone_witness:
  "manual_find_slot clock_plus5_host 60 ''UTC'' = manual_find_slot clock_plus5_host 60 ''Asia/Karachi''
   \<and> map_sum id slot_start_time (crew_find_slot clock_plus5_host 60 ''UTC'')
       = map_sum id slot_start_time (crew_find_slot clock_plus5_host 60 ''Asia/Karachi'')
   \<and> map_sum id slot_end_time (crew_find_slot clock_plus5_host 60 ''UTC'')
       = map_sum id slot_end_time (crew_find_slot clock_plus5_host 60 ''Asia/Karachi'')"
  using find_slot_ignores_timezone [of clock_plus5_host 60 "''UTC''" "''Asia/Karachi''"]
  by blast

section \<open>Event Publisher: facts\<close>

lemma create_calendar_event_unfold:
  "create_calendar_event v e clk req fs =
     (case get_calendar_service e (credentials_path req) (token_path req) fs of
        (Inl err, fs', es) \<Rightarrow> (case handler v err es of (r, es') \<Rightarrow> (r, fs', es'))
      | (Inr svc, fs', es) \<Rightarrow>
          (case insert_event e clk req svc of
             (Inl err, es') \<Rightarrow> (case handler v err (es @ es') of (r, es'') \<Rightarrow> (r, fs', es''))
           | (Inr res, es') \<Rightarrow> (Returned res, fs', es @ es')))"
  by (cases v)
     (simp_all add: create_calendar_event_def handler_def manual_create_calendar_event_def
        crew_create_calendar_event_def get_calendar_service_def
        split: prod.splits sum.splits)

lemma handler_simps:
  "handler v (PyException msg) es = (Returned (Failure msg), es @ handler_effects v)"
  "handler v (PyBaseException msg) es = (Raised (PyBaseException msg), es)"
  by (cases v; simp add: handler_def handler_effects_def manual_handler_def crew_handler_def)+

lemma handler_effects_plain:
  "filter interactive (handler_effects v) = []"
  "filter is_insert (handler_effects v) = []"
  "sent_request_ids (handler_effects v) = []"
  by (cases v; simp add: handler_effects_def sent_request_ids_def)+

lemma handler_never_succeeds: "fst (handler v err es) \<noteq> Returned (Success l m i)"
  by (cases err; simp add: handler_simps)

lemma sent_request_ids_Nil: "sent_request_ids [] = []"
  by (simp add: sent_request_ids_def)

lemma handler_effects_extend: "\<exists>rest. snd (handler v err es) = es @ rest
    \<and> filter interactive rest = [] \<and> filter is_insert rest = [] \<and> sent_request_ids rest = []"
  by (cases err; simp add: handler_simps handler_effects_plain sent_request_ids_Nil)

lemma insert_event_simps:
  "execute_insert e svc (make_insert_call (make_event e clk req)) = Inl err \<Longrightarrow>
     insert_event e clk req svc = (Inl err, [Insert (make_insert_call (make_event e clk req))])"
  "execute_insert e svc (make_insert_call (make_event e clk req)) = Inr created \<Longrightarrow>
     insert_event e clk req svc =
       (Inr (success created), [Insert (make_insert_call (make_event e clk req))])"
  by (simp_all add: insert_event_def)

lemma sent_request_ids_append:
  "sent_request_ids (xs @ ys) = sent_request_ids xs @ sent_request_ids ys"
  by (simp add: sent_request_ids_def)

lemma sent_request_ids_insert:
  "sent_request_ids [Insert (make_insert_call (make_event e clk req))] = [request_id e clk]"
  by (simp add: sent_request_ids_def make_insert_call_def make_event_def)

lemmas acquire_defs =
  acquire_credentials_def load_token_def renew_and_save_def renew_credentials_def
  interactive_authorization_def save_token_def

lemma acquire_credentials_no_insert:
  assumes "acquire_credentials e cp tp fs = (r, fs', es)"
  shows "sent_request_ids es = []" and "filter is_insert es = []"
  using assms
  by (auto simp: acquire_defs sent_request_ids_def
        split: option.splits sum.splits prod.splits if_splits)

lemma get_calendar_service_no_insert:
  assumes "get_calendar_service e cp tp fs = (r, fs', es)"
  shows "sent_request_ids es = []" and "filter is_insert es = []"
proof -
  obtain r0 fs0 es0 where a: "acquire_credentials e cp tp fs = (r0, fs0, es0)"
    by (cases "acquire_credentials e cp tp fs") auto
  have es: "es = es0 \<or> es = es0 @ [Build]"
    using assms a by (auto simp: get_calendar_service_def split: sum.splits)
  from es acquire_credentials_no_insert [OF a]
  show "sent_request_ids es = []" and "filter is_insert es = []"
    by (auto simp: sent_request_ids_append) (simp add: sent_request_ids_def)
qed

text \<open>After the credential code, only \<^verbatim>\<open>build\<close>, the insert call and the handler run.\<close>

lemma create_after_acquire:
  assumes "acquire_credentials e (credentials_path req) (token_path req) fs = (r, fs', es)"
  shows "\<exists>out rest. create_calendar_event v e clk req fs = (out, fs', es @ rest)
           \<and> filter interactive rest = []"
proof (cases r)
  case (Inl err)
  with assms have "create_calendar_event v e clk req fs
      = (fst (handler v err es), fs', snd (handler v err es))"
    by (simp add: create_calendar_event_unfold get_calendar_service_def split: prod.splits)
  with handler_effects_extend [of v err es] show ?thesis by auto
next
  case (Inr c)
  show ?thesis
  proof (cases "build e c")
    case (Inl err)
    with assms Inr have "create_calendar_event v e clk req fs
        = (fst (handler v err (es @ [Build])), fs', snd (handler v err (es @ [Build])))"
      by (simp add: create_calendar_event_unfold get_calendar_service_def split: prod.splits)
    with handler_effects_extend [of v err "es @ [Build]"] show ?thesis by auto
  next
    case svc: (Inr svc)
    let ?ins = "Insert (make_insert_call (make_event e clk req))"
    show ?thesis
    proof (cases "execute_insert e svc (make_insert_call (make_event e clk req))")
      case (Inl err)
      with assms Inr svc have "create_calendar_event v e clk req fs
          = (fst (handler v err (es @ [Build, ?ins])), fs',
             snd (handler v err (es @ [Build, ?ins])))"
        by (simp add: create_calendar_event_unfold get_calendar_service_def
              insert_event_simps split: prod.splits)
      with handler_effects_extend [of v err "es @ [Build, ?ins]"] show ?thesis by auto
    next
      case (Inr created)
      with assms \<open>r = Inr c\<close> svc have "create_calendar_event v e clk req fs
          = (Returned (success created), fs', es @ [Build, ?ins])"
        by (simp add: create_calendar_event_unfold get_calendar_service_def insert_event_simps)
      then show ?thesis by auto
    qed
  qed
qed

lemma acquire_credentials_valid_cache:
  assumes "fs tp = Some content" and "from_authorized_user_file e content = Inr c"
    and "valid c"
  shows "acquire_credentials e cp tp fs = (Inr c, fs, [Load_token tp])"
  using assms by (simp add: acquire_defs)

lemma acquire_credentials_refresh:
  assumes "fs tp = Some content" and "from_authorized_user_file e content = Inr c"
    and "\<not> valid c" and "expired c" and "truthy (refresh_token c)"
    and "refresh e c = Inr c'" and "open_for_writing e tp = None"
  shows "acquire_credentials e cp tp fs =
           (Inr c', fs(tp \<mapsto> to_json c'), [Load_token tp, Refresh, Write_token tp (to_json c')])"
  using assms by (simp add: acquire_defs)

lemma success_sends_one_request_id:
  assumes "create_calendar_event v e clk req fs = (Returned (Success l m i), fs', es)"
  shows "sent_request_ids es = [request_id e clk]"
proof -
  obtain r0 fs0 es0 where g:
    "get_calendar_service e (credentials_path req) (token_path req) fs = (r0, fs0, es0)"
    by (cases "get_calendar_service e (credentials_path req) (token_path req) fs") auto
  note none = get_calendar_service_no_insert(1) [OF g]
  show ?thesis
  proof (cases r0)
    case (Inl err)
    with assms g handler_never_succeeds [of v err es0 l m i] show ?thesis
      by (auto simp: create_calendar_event_unfold split: prod.splits)
  next
    case (Inr svc)
    let ?call = "make_insert_call (make_event e clk req)"
    show ?thesis
    proof (cases "execute_insert e svc ?call")
      case (Inl err)
      with assms g Inr handler_never_succeeds [of v err "es0 @ [Insert ?call]" l m i]
      show ?thesis
        by (auto simp: create_calendar_event_unfold insert_event_simps split: prod.splits)
    next
      case created: (Inr created)
      with assms g Inr have "es = es0 @ [Insert ?call]"
        by (simp add: create_calendar_event_unfold insert_event_simps)
      with none show ?thesis
        by (simp add: sent_request_ids_append sent_request_ids_insert)
    qed
  qed
qed

section \<open>Event Publisher: the stubs evaluated\<close>

lemmas stub_defs =
  stub_env_def no_meet_env_def failing_insert_env_def interrupted_insert_env_def
  quiet_refresh_env_def
  valid_credential_def expired_credential_def refreshed_credential_def
  no_files_def cached_files_def expired_files_def corrupt_files_def sample_request_def
  truthy_def

lemma stub_acquire_corrupt_files:
  "acquire_credentials stub_env (credentials_path sample_request) (token_path sample_request)
     corrupt_files
   = (Inl (PyException ''Expecting value: line 1 column 1 (char 0)''), corrupt_files,
      [Load_token ''token.json''])"
  by (simp add: acquire_defs stub_defs)

lemma stub_service_cached_files:
  "get_calendar_service stub_env (credentials_path sample_request) (token_path sample_request)
     cached_files
   = (Inr (Service valid_credential), cached_files, [Load_token ''token.json'', Build])"
  "get_calendar_service no_meet_env (credentials_path sample_request)
     (token_path sample_request) cached_files
   = (Inr (Service valid_credential), cached_files, [Load_token ''token.json'', Build])"
  "get_calendar_service failing_insert_env (credentials_path sample_request)
     (token_path sample_request) cached_files
   = (Inr (Service valid_credential), cached_files, [Load_token ''token.json'', Build])"
  by (simp_all add: get_calendar_service_def acquire_defs stub_defs)

lemma stub_insert:
  "execute_insert stub_env svc call = Inr full_resource"
  "execute_insert no_meet_env svc call = Inr resource_without_meet"
  "execute_insert failing_insert_env svc call = Inl (PyException ''HttpError 400'')"
  by (simp_all add: stub_defs)

lemma stub_cached_token:
  "cached_files (token_path sample_request) = Some ''token-V''"
  "from_authorized_user_file stub_env ''token-V'' = Inr valid_credential"
  "valid valid_credential"
  by (simp_all add: stub_defs)

lemma stub_expired_token:
  "expired_files (token_path sample_request) = Some ''token-A''"
  "from_authorized_user_file stub_env ''token-A'' = Inr expired_credential"
  "\<not> valid expired_credential"
  "expired expired_credential"
  "truthy (refresh_token expired_credential)"
  "refresh stub_env expired_credential = Inr refreshed_credential"
  "open_for_writing stub_env (token_path sample_request) = None"
  by (simp_all add: stub_defs)

lemma stub_timestamps:
  "stub_timestamp_str 1793707200000000 = ''1793707200.0''"
  "stub_timestamp_str 1793511000000000 = ''1793511000.0''"
  "stub_timestamp_str 1793514600000000 = ''1793514600.0''"
  by code_simp+

lemma stub_printed_timestamps:
  "timestamp_str stub_env (timestamp clock_utc_host) = ''1793707200.0''"
  "timestamp_str stub_env (timestamp clock_before_fold) = ''1793511000.0''"
  "timestamp_str stub_env (timestamp clock_after_fold) = ''1793514600.0''"
  by (simp_all add: stub_env_def timestamp_def posix_epoch_def clock_utc_host_def
        clock_before_fold_def clock_after_fold_def stub_timestamps)

lemma fold_clocks_share_local_reading: "now clock_before_fold = now clock_after_fold"
  by (simp add: now_def clock_before_fold_def clock_after_fold_def)

text \<open>The identifier does not depend on the offset of the host.\<close>

lemma request_id_of_instant:
  assumes "utc clk1 = utc clk2"
  shows "request_id e clk1 = request_id e clk2"
  using assms by (simp add: request_id_def timestamp_def)

lemma stub_call_cached_files:
  "create_calendar_event v stub_env clk sample_request cached_files
   = (Returned (Success (Some ''L'') (Some ''M'') (Some ''X'')), cached_files,
      [Load_token ''token.json'', Build,
       Insert (make_insert_call (make_event stub_env clk sample_request))])"
  by (simp add: create_calendar_event_unfold stub_service_cached_files
        insert_event_simps(2) [OF stub_insert(1)] success_def full_resource_def)

section \<open>Event Publisher: the claims\<close>

text \<open>
  C1, as amended. When credential acquisition (loading the cache file, refreshing, the
  interactive flow, or saving the token) raises an instance of \<^verbatim>\<open>Exception\<close>,
  \<^verbatim>\<open>create_calendar_event\<close> catches it, because the acquisition runs inside its
  \<^verbatim>\<open>try\<close>: it returns the Failure result whose message is the text of the exception and
  makes no insert call (the agent variant prints the traceback first). Only an exception
  that is not an instance of \<^verbatim>\<open>Exception\<close>, such as \<^verbatim>\<open>KeyboardInterrupt\<close>, goes on to the
  caller with no result.
\<close>

theorem credential_failure_is_handled:
  assumes "acquire_credentials e (credentials_path req) (token_path req) fs = (Inl err, fs', es)"
  shows "create_calendar_event v e clk req fs =
           (case err of
              PyException msg \<Rightarrow> (Returned (Failure msg), fs', es @ handler_effects v)
            | PyBaseException msg \<Rightarrow> (Raised err, fs', es))"
  using assms
  by (cases err)
     (simp_all add: create_calendar_event_unfold get_calendar_service_def handler_simps)

theorem credential_failure_is_handled_witness:
  "acquire_credentials stub_env (credentials_path sample_request) (token_path sample_request)
     corrupt_files
   = (Inl (PyException ''Expecting value: line 1 column 1 (char 0)''), corrupt_files,
      [Load_token ''token.json''])
   \<and> create_calendar_event Crew stub_env clock_utc_host sample_request corrupt_files
   = (Returned (Failure ''Expecting value: line 1 column 1 (char 0)''), corrupt_files,
      [Load_token ''token.json''] @ handler_effects Crew)"
proof -
  note h = stub_acquire_corrupt_files
  have r: "create_calendar_event Crew stub_env clock_utc_host sample_request corrupt_files
   = (Returned (Failure ''Expecting value: line 1 column 1 (char 0)''), corrupt_files,
      [Load_token ''token.json''] @ handler_effects Crew)"
    using credential_failure_is_handled [OF h, of Crew clock_utc_host] by simp
  from h r show ?thesis by blast
qed

text \<open>
  C1 as stated fails: with no token file and no client-secrets file the interactive flow
  raises \<^verbatim>\<open>FileNotFoundError\<close> during credential acquisition, and both variants return
  the Failure result instead of letting the exception reach the caller.
\<close>

theorem missing_client_secrets_example:
  "fst (acquire_credentials stub_env ''./test.json'' ''token.json'' no_files)
     = Inl (PyException ''[Errno 2] No such file or directory'')
   \<and> fst (create_calendar_event Manual stub_env clock_utc_host sample_request no_files)
     = Returned (Failure ''[Errno 2] No such file or directory'')
   \<and> fst (create_calendar_event Crew stub_env clock_utc_host sample_request no_files)
     = Returned (Failure ''[Errno 2] No such file or directory'')"
  by (simp add: create_calendar_event_def manual_create_calendar_event_def
        crew_create_calendar_event_def get_calendar_service_def acquire_defs
        manual_handler_def crew_handler_def stub_defs)

text \<open>
  C3. When the service has been obtained and the insert call returns an event resource,
  \<^verbatim>\<open>create_calendar_event\<close> returns exactly the Success record whose three fields are the
  resource's entries \<^verbatim>\<open>htmlLink\<close>, \<^verbatim>\<open>hangoutLink\<close> and \<^verbatim>\<open>id\<close>: \<open>Some L\<close>, \<open>Some M\<close>, \<open>Some X\<close>
  when the provider sends them, and \<open>None\<close> for an entry it omits. Exactly one insert call
  is made after the credential calls.
\<close>

theorem insert_success_result:
  assumes "get_calendar_service e (credentials_path req) (token_path req) fs = (Inr svc, fs', es)"
    and "execute_insert e svc (make_insert_call (make_event e clk req)) = Inr created"
  shows "create_calendar_event v e clk req fs =
           (Returned (Success (created ''htmlLink'') (created ''hangoutLink'') (created ''id'')),
            fs', es @ [Insert (make_insert_call (make_event e clk req))])"
  using assms
  by (simp add: create_calendar_event_unfold insert_event_simps success_def)

theorem insert_success_result_witness:
  "get_calendar_service stub_env (credentials_path sample_request) (token_path sample_request)
     cached_files
   = (Inr (Service valid_credential), cached_files, [Load_token ''token.json'', Build])
   \<and> execute_insert stub_env (Service valid_credential)
       (make_insert_call (make_event stub_env clock_utc_host sample_request)) = Inr full_resource
   \<and> create_calendar_event Manual stub_env clock_utc_host sample_request cached_files
   = (Returned (Success (Some ''L'') (Some ''M'') (Some ''X'')), cached_files,
      [Load_token ''token.json'', Build]
      @ [Insert (make_insert_call (make_event stub_env clock_utc_host sample_request))])
   \<and> execute_insert no_meet_env (Service valid_credential)
       (make_insert_call (make_event no_meet_env clock_utc_host sample_request))
     = Inr resource_without_meet
   \<and> create_calendar_event Crew no_meet_env clock_utc_host sample_request cached_files
   = (Returned (Success (Some ''L'') None (Some ''X'')), cached_files,
      [Load_token ''token.json'', Build]
      @ [Insert (make_insert_call (make_event no_meet_env clock_utc_host sample_request))])"
proof -
  note g1 = stub_service_cached_files(1)
  note g2 = stub_service_cached_files(2)
  note i1 = stub_insert(1) [of "Service valid_credential"
      "make_insert_call (make_event stub_env clock_utc_host sample_request)"]
  note i2 = stub_insert(2) [of "Service valid_credential"
      "make_insert_call (make_event no_meet_env clock_utc_host sample_request)"]
  have r1: "create_calendar_event Manual stub_env clock_utc_host sample_request cached_files
   = (Returned (Success (Some ''L'') (Some ''M'') (Some ''X'')), cached_files,
      [Load_token ''token.json'', Build]
      @ [Insert (make_insert_call (make_event stub_env clock_utc_host sample_request))])"
    using insert_success_result [OF g1 i1, of Manual] by (simp add: full_resource_def)
  have r2: "create_calendar_event Crew no_meet_env clock_utc_host sample_request cached_files
   = (Returned (Success (Some ''L'') None (Some ''X'')), cached_files,
      [Load_token ''token.json'', Build]
      @ [Insert (make_insert_call (make_event no_meet_env clock_utc_host sample_request))])"
    using insert_success_result [OF g2 i2, of Crew] by (simp add: resource_without_meet_def)
  from g1 i1 r1 i2 r2 show ?thesis by blast
qed

text \<open>
  C4, as amended. When the service has been obtained and the insert call raises an
  instance of \<^verbatim>\<open>Exception\<close> (as every network, serialisation or provider failure is),
  \<^verbatim>\<open>create_calendar_event\<close> returns the Failure result whose message is the text of that
  exception and nothing is raised to the caller. An exception that is not an instance of
  \<^verbatim>\<open>Exception\<close>, such as \<^verbatim>\<open>KeyboardInterrupt\<close>, is not caught and goes on to the caller.
  In both cases the calls made are the credential calls and then the one insert call
  (followed, in the agent variant, by the printing of the traceback when the exception is
  caught): there is no second insert call.
\<close>

theorem insert_failure_result:
  assumes "get_calendar_service e (credentials_path req) (token_path req) fs = (Inr svc, fs', es)"
    and "execute_insert e svc (make_insert_call (make_event e clk req)) = Inl err"
  shows "create_calendar_event v e clk req fs =
           (case err of
              PyException msg \<Rightarrow>
                (Returned (Failure msg), fs',
                 es @ [Insert (make_insert_call (make_event e clk req))] @ handler_effects v)
            | PyBaseException msg \<Rightarrow>
                (Raised err, fs', es @ [Insert (make_insert_call (make_event e clk req))]))
         \<and> length (filter is_insert (snd (snd (create_calendar_event v e clk req fs)))) = 1"
  using assms get_calendar_service_no_insert(2) [OF assms(1)]
  by (cases err)
     (simp_all add: create_calendar_event_unfold insert_event_simps handler_simps
        handler_effects_plain)

theorem insert_failure_result_witness:
  "get_calendar_service failing_insert_env (credentials_path sample_request)
     (token_path sample_request) cached_files
   = (Inr (Service valid_credential), cached_files, [Load_token ''token.json'', Build])
   \<and> execute_insert failing_insert_env (Service valid_credential)
       (make_insert_call (make_event failing_insert_env clock_utc_host sample_request))
     = Inl (PyException ''HttpError 400'')
   \<and> create_calendar_event Crew failing_insert_env clock_utc_host sample_request cached_files
   = (Returned (Failure ''HttpError 400''), cached_files,
      [Load_token ''token.json'', Build]
      @ [Insert (make_insert_call (make_event failing_insert_env clock_utc_host sample_request))]
      @ handler_effects Crew)
   \<and> length (filter is_insert (snd (snd (create_calendar_event Crew failing_insert_env
        clock_utc_host sample_request cached_files)))) = 1"
proof -
  note g = stub_service_cached_files(3)
  note i = stub_insert(3) [of "Service valid_credential"
      "make_insert_call (make_event failing_insert_env clock_utc_host sample_request)"]
  note t = insert_failure_result [OF g i, of Crew]
  have r: "create_calendar_event Crew failing_insert_env clock_utc_host sample_request
      cached_files
   = (Returned (Failure ''HttpError 400''), cached_files,
      [Load_token ''token.json'', Build]
      @ [Insert (make_insert_call (make_event failing_insert_env clock_utc_host sample_request))]
      @ handler_effects Crew)"
    using t by simp
  from g i r t show ?thesis by blast
qed

text \<open>
  C4 as stated fails: the credential is valid and the service is obtained; the user
  interrupts the insert call; \<^verbatim>\<open>except Exception\<close> does not catch \<^verbatim>\<open>KeyboardInterrupt\<close>,
  which escapes the call in both variants, and no Failure result is returned.
\<close>

theorem interrupted_insert_example:
  "fst (get_calendar_service interrupted_insert_env ''./test.json'' ''token.json'' cached_files)
     = Inr (Service valid_credential)
   \<and> execute_insert interrupted_insert_env (Service valid_credential)
       (make_insert_call (make_event interrupted_insert_env clock_utc_host sample_request))
     = Inl (PyBaseException [])
   \<and> fst (create_calendar_event Manual interrupted_insert_env clock_utc_host sample_request
        cached_files) = Raised (PyBaseException [])
   \<and> fst (create_calendar_event Crew interrupted_insert_env clock_utc_host sample_request
        cached_files) = Raised (PyBaseException [])"
  by (simp add: create_calendar_event_def manual_create_calendar_event_def
        crew_create_calendar_event_def get_calendar_service_def acquire_defs
        insert_event_def manual_handler_def crew_handler_def stub_defs)

text \<open>
  C5. When the cache file exists and holds a valid credential, \<^verbatim>\<open>create_calendar_event\<close>
  makes no call of the interactive authorization flow (neither reading the client
  secrets nor running the local server), whatever the later calls do, and it leaves the
  cache file as it is.
\<close>

theorem valid_cache_skips_interactive_flow:
  assumes "fs (token_path req) = Some content"
    and "from_authorized_user_file e content = Inr c"
    and "valid c"
  shows "filter interactive (snd (snd (create_calendar_event v e clk req fs))) = []
         \<and> fst (snd (create_calendar_event v e clk req fs)) = fs"
proof -
  note a = acquire_credentials_valid_cache
    [where fs = fs and tp = "token_path req" and cp = "credentials_path req", OF assms]
  from create_after_acquire [OF a, of v clk]
  obtain out rest where
    "create_calendar_event v e clk req fs = (out, fs, [Load_token (token_path req)] @ rest)"
    and "filter interactive rest = []"
    by blast
  then show ?thesis by simp
qed

theorem valid_cache_skips_interactive_flow_witness:
  "cached_files (token_path sample_request) = Some ''token-V''
   \<and> from_authorized_user_file stub_env ''token-V'' = Inr valid_credential
   \<and> valid valid_credential
   \<and> filter interactive
       (snd (snd (create_calendar_event Manual stub_env clock_utc_host sample_request
          cached_files))) = []
   \<and> fst (snd (create_calendar_event Manual stub_env clock_utc_host sample_request
          cached_files)) = cached_files"
proof -
  note h = stub_cached_token
  from h valid_cache_skips_interactive_flow
    [where fs = cached_files and req = sample_request, OF h, of Manual clock_utc_host]
  show ?thesis by blast
qed

text \<open>
  C6, as amended. When the cache file holds a credential that is expired (hence not
  valid) and carries a refresh token, the refresh succeeds and the token file can be
  opened for writing, \<^verbatim>\<open>create_calendar_event\<close> performs the refresh, overwrites the cache
  file with the serialisation of the refreshed credential, and makes no call of the
  interactive authorization flow. The content of the file then differs from the original
  exactly when that serialisation differs from it.
\<close>

theorem expired_cache_is_refreshed_and_saved:
  assumes "fs (token_path req) = Some content"
    and "from_authorized_user_file e content = Inr c"
    and "\<not> valid c" and "expired c" and "truthy (refresh_token c)"
    and "refresh e c = Inr c'"
    and "open_for_writing e (token_path req) = None"
  shows "Refresh \<in> set (snd (snd (create_calendar_event v e clk req fs)))
         \<and> Write_token (token_path req) (to_json c')
             \<in> set (snd (snd (create_calendar_event v e clk req fs)))
         \<and> fst (snd (create_calendar_event v e clk req fs)) = fs(token_path req \<mapsto> to_json c')
         \<and> (fst (snd (create_calendar_event v e clk req fs)) (token_path req)
              \<noteq> fs (token_path req)) = (to_json c' \<noteq> content)
         \<and> filter interactive (snd (snd (create_calendar_event v e clk req fs))) = []"
proof -
  note a = acquire_credentials_refresh
    [where fs = fs and tp = "token_path req" and cp = "credentials_path req", OF assms]
  from create_after_acquire [OF a, of v clk]
  obtain out rest where
    "create_calendar_event v e clk req fs =
       (out, fs(token_path req \<mapsto> to_json c'),
        [Load_token (token_path req), Refresh, Write_token (token_path req) (to_json c')] @ rest)"
    and "filter interactive rest = []"
    by blast
  with assms(1) show ?thesis by auto
qed

theorem expired_cache_is_refreshed_and_saved_witness:
  "expired_files (token_path sample_request) = Some ''token-A''
   \<and> from_authorized_user_file stub_env ''token-A'' = Inr expired_credential
   \<and> \<not> valid expired_credential \<and> expired expired_credential
   \<and> truthy (refresh_token expired_credential)
   \<and> refresh stub_env expired_credential = Inr refreshed_credential
   \<and> open_for_writing stub_env (token_path sample_request) = None
   \<and> Refresh \<in> set (snd (snd (create_calendar_event Crew stub_env clock_utc_host
         sample_request expired_files)))
   \<and> fst (snd (create_calendar_event Crew stub_env clock_utc_host sample_request
         expired_files)) (token_path sample_request) = Some ''token-B''
   \<and> filter interactive (snd (snd (create_calendar_event Crew stub_env clock_utc_host
         sample_request expired_files))) = []"
proof -
  note h = stub_expired_token
  note t = expired_cache_is_refreshed_and_saved
    [where fs = expired_files and req = sample_request, OF h, of Crew clock_utc_host]
  have f: "fst (snd (create_calendar_event Crew stub_env clock_utc_host sample_request
         expired_files)) (token_path sample_request) = Some ''token-B''"
    using t by (simp add: refreshed_credential_def)
  from h t f show ?thesis by blast
qed

text \<open>
  C6 as stated fails: the refresh below succeeds and leaves the serialised credential
  as it was, so the file is overwritten with the content it already had.
\<close>

theorem quiet_refresh_same_content_example:
  "expired_files ''token.json'' = Some ''token-A''
   \<and> from_authorized_user_file quiet_refresh_env ''token-A'' = Inr expired_credential
   \<and> expired expired_credential
   \<and> refresh_token expired_credential = Some ''r1''
   \<and> fst (create_calendar_event Manual quiet_refresh_env clock_utc_host sample_request
        expired_files) = Returned (Success (Some ''L'') (Some ''M'') (Some ''X''))
   \<and> take 3 (snd (snd (create_calendar_event Manual quiet_refresh_env clock_utc_host
        sample_request expired_files)))
      = [Load_token ''token.json'', Refresh, Write_token ''token.json'' ''token-A'']
   \<and> fst (snd (create_calendar_event Manual quiet_refresh_env clock_utc_host sample_request
        expired_files)) ''token.json'' = Some ''token-A''
   \<and> fst (create_calendar_event Crew quiet_refresh_env clock_utc_host sample_request
        expired_files) = Returned (Success (Some ''L'') (Some ''M'') (Some ''X''))
   \<and> take 3 (snd (snd (create_calendar_event Crew quiet_refresh_env clock_utc_host
        sample_request expired_files)))
      = [Load_token ''token.json'', Refresh, Write_token ''token.json'' ''token-A'']
   \<and> fst (snd (create_calendar_event Crew quiet_refresh_env clock_utc_host sample_request
        expired_files)) ''token.json'' = Some ''token-A''"
  by (simp add: create_calendar_event_def manual_create_calendar_event_def
        crew_create_calendar_event_def get_calendar_service_def acquire_defs
        insert_event_def success_def full_resource_def stub_defs)

text \<open>
  C9, as amended. The deduplication identifier that a successful call sends is
  \<^verbatim>\<open>event_\<close> followed by the printed POSIX timestamp of the instant at which the call
  reads the clock, and nothing else. So the identifiers of two consecutive successful
  calls are distinct exactly when the printed timestamps of their two instants are
  distinct; two calls that read the clock within the same tick send the same identifier.
\<close>

theorem request_ids_follow_timestamp:
  assumes "create_calendar_event v e clk1 req1 fs = (Returned (Success l1 m1 i1), fs1, es1)"
    and "create_calendar_event v e clk2 req2 fs1 = (Returned (Success l2 m2 i2), fs2, es2)"
  shows "sent_request_ids es1 = [''event_'' @ timestamp_str e (timestamp clk1)]
         \<and> sent_request_ids es2 = [''event_'' @ timestamp_str e (timestamp clk2)]
         \<and> (sent_request_ids es1 \<noteq> sent_request_ids es2)
             = (timestamp_str e (timestamp clk1) \<noteq> timestamp_str e (timestamp clk2))"
  using success_sends_one_request_id [OF assms(1)] success_sends_one_request_id [OF assms(2)]
  by (simp add: request_id_def)

theorem request_ids_follow_timestamp_witness:
  "create_calendar_event Manual stub_env clock_before_fold sample_request cached_files
   = (Returned (Success (Some ''L'') (Some ''M'') (Some ''X'')), cached_files,
      [Load_token ''token.json'', Build,
       Insert (make_insert_call (make_event stub_env clock_before_fold sample_request))])
   \<and> create_calendar_event Manual stub_env clock_after_fold sample_request cached_files
   = (Returned (Success (Some ''L'') (Some ''M'') (Some ''X'')), cached_files,
      [Load_token ''token.json'', Build,
       Insert (make_insert_call (make_event stub_env clock_after_fold sample_request))])
   \<and> now clock_before_fold = now clock_after_fold
   \<and> sent_request_ids [Load_token ''token.json'', Build,
       Insert (make_insert_call (make_event stub_env clock_before_fold sample_request))]
     = [''event_1793511000.0'']
   \<and> sent_request_ids [Load_token ''token.json'', Build,
       Insert (make_insert_call (make_event stub_env clock_after_fold sample_request))]
     = [''event_1793514600.0'']"
proof -
  note c1 = stub_call_cached_files [of Manual clock_before_fold]
  note c2 = stub_call_cached_files [of Manual clock_after_fold]
  note t = request_ids_follow_timestamp [OF c1 c2]
  from t stub_printed_timestamps have
    "sent_request_ids [Load_token ''token.json'', Build,
       Insert (make_insert_call (make_event stub_env clock_before_fold sample_request))]
     = [''event_1793511000.0'']"
    "sent_request_ids [Load_token ''token.json'', Build,
       Insert (make_insert_call (make_event stub_env clock_after_fold sample_request))]
     = [''event_1793514600.0'']"
    by simp_all
  with c1 c2 fold_clocks_share_local_reading show ?thesis by blast
qed

text \<open>
  C9 as stated fails: two consecutive successful calls that read the clock within the
  same tick, and so get the same timestamp, send the same identifier.
\<close>

theorem same_reading_same_request_id_example:
  "fst (first_call Manual) = Returned (Success (Some ''L'') (Some ''M'') (Some ''X''))
   \<and> fst (second_call Manual) = Returned (Success (Some ''L'') (Some ''M'') (Some ''X''))
   \<and> sent_request_ids (snd (snd (first_call Manual))) = [''event_1793707200.0'']
   \<and> sent_request_ids (snd (snd (second_call Manual))) = [''event_1793707200.0'']
   \<and> fst (first_call Crew) = Returned (Success (Some ''L'') (Some ''M'') (Some ''X''))
   \<and> fst (second_call Crew) = Returned (Success (Some ''L'') (Some ''M'') (Some ''X''))
   \<and> sent_request_ids (snd (snd (first_call Crew))) = [''event_1793707200.0'']
   \<and> sent_request_ids (snd (snd (second_call Crew))) = [''event_1793707200.0'']"
proof -
  have s: "request_id stub_env clock_utc_host = ''event_1793707200.0''"
    by (simp add: request_id_def stub_printed_timestamps)
  have ids: "sent_request_ids [Load_token ''token.json'', Build,
       Insert (make_insert_call (make_event stub_env clock_utc_host sample_request))]
     = [''event_1793707200.0'']"
    by (simp add: sent_request_ids_def make_insert_call_def make_event_def s)
  show ?thesis
    by (simp add: first_call_def second_call_def stub_call_cached_files ids)
qed

end
